theory Spec2Isabelle
  imports Main
begin

section \<open>Values decoded from JSON\<close>

text \<open>
  The program of \<^verbatim>\<open>src/src/App.jsx\<close> inspects the decoded body of an HTTP response,
  an arbitrary JSON value, with JavaScript's dynamic operations. A number is represented by
  its canonical rendering (what \<^verbatim>\<open>String(n)\<close> yields, \<^verbatim>\<open>0\<close> for both zeros): the program
  never computes with numbers, it only tests them for truthiness and prints them. A decoded
  number is finite or, for a literal too large such as \<^verbatim>\<open>1e400\<close>, an infinity; it is never
  NaN. A string is a list of 8-bit code units. An object is the list of its own properties,
  with distinct keys, in enumeration order. The value \<^verbatim>\<open>undefined\<close> is not a JSON value: an
  expression that may be undefined has type \<open>json option\<close>, with \<open>None\<close> for
  \<^verbatim>\<open>undefined\<close>.
\<close>

datatype json =
    JNull
  | JBool bool
  | JNum string
  | JStr string
  | JArr "json list"
  | JObj "(string \<times> json) list"

text \<open>
  Exceptions. The engine raises a TypeError when a property is read from \<^verbatim>\<open>null\<close> or
  \<^verbatim>\<open>undefined\<close> and when an object cannot be converted to a primitive; every other
  exception of the program is an \<^verbatim>\<open>Error\<close> object with a message (made by
  \<^verbatim>\<open>new Error(...)\<close>, by a rejected \<^verbatim>\<open>fetch\<close> or by a failed \<^verbatim>\<open>response.json()\<close>).
\<close>

datatype exn =
    NullishRead "json option" string
  | NotPrimitive
  | Error string

text \<open>
  \<^verbatim>\<open>v.k\<close> for the property names the program reads (\<^verbatim>\<open>output\<close>, \<^verbatim>\<open>choices\<close>,
  \<^verbatim>\<open>output_text\<close>, \<^verbatim>\<open>type\<close>, \<^verbatim>\<open>content\<close>, \<^verbatim>\<open>text\<close>, \<^verbatim>\<open>summary\<close>, \<^verbatim>\<open>message\<close>,
  \<^verbatim>\<open>error\<close>): none of them is an index, \<^verbatim>\<open>length\<close> or a member of a built-in prototype,
  so only an object can have one.
\<close>

fun property :: "json \<Rightarrow> string \<Rightarrow> json option" where
  "property (JObj kvs) k = map_of kvs k"
| "property _ k = None"

fun get :: "json option \<Rightarrow> string \<Rightarrow> exn + json option" where
  "get None k = Inl (NullishRead None k)"
| "get (Some JNull) k = Inl (NullishRead (Some JNull) k)"
| "get (Some v) k = Inr (property v k)"

text \<open>\<^verbatim>\<open>v[0]\<close> on a value that is neither null nor undefined.\<close>

fun index0 :: "json \<Rightarrow> json option" where
  "index0 (JArr xs) = (case xs of [] \<Rightarrow> None | x # _ \<Rightarrow> Some x)"
| "index0 (JStr s) = (case s of [] \<Rightarrow> None | c # _ \<Rightarrow> Some (JStr [c]))"
| "index0 (JObj kvs) = map_of kvs ''0''"
| "index0 _ = None"

fun truthy :: "json option \<Rightarrow> bool" where
  "truthy None = False"
| "truthy (Some JNull) = False"
| "truthy (Some (JBool b)) = b"
| "truthy (Some (JNum n)) = (n \<noteq> ''0'')"
| "truthy (Some (JStr s)) = (s \<noteq> [])"
| "truthy (Some (JArr xs)) = True"
| "truthy (Some (JObj kvs)) = True"

fun isArray :: "json option \<Rightarrow> bool" where
  "isArray (Some (JArr xs)) = True"
| "isArray _ = False"

fun join :: "string \<Rightarrow> string list \<Rightarrow> string" where
  "join sep [] = []"
| "join sep [x] = x"
| "join sep (x # y # ys) = x @ sep @ join sep (y # ys)"

text \<open>
  Conversion to a string, as string concatenation and \<^verbatim>\<open>new Error(v)\<close> perform it. An
  array is joined with commas, null elements printing as nothing. A plain object prints as
  \<^verbatim>\<open>[object Object]\<close> through \<^verbatim>\<open>Object.prototype.toString\<close>, unless an own property
  \<^verbatim>\<open>toString\<close> (never callable in decoded JSON) hides that method: then the conversion
  raises a TypeError.
\<close>

fun seq :: "(exn + 'a) list \<Rightarrow> exn + 'a list" where
  "seq [] = Inr []"
| "seq (r # rs) =
     (case r of Inl e \<Rightarrow> Inl e
      | Inr x \<Rightarrow> (case seq rs of Inl e \<Rightarrow> Inl e | Inr xs \<Rightarrow> Inr (x # xs)))"

fun toString :: "json \<Rightarrow> exn + string" where
  "toString JNull = Inr ''null''"
| "toString (JBool b) = Inr (if b then ''true'' else ''false'')"
| "toString (JNum n) = Inr n"
| "toString (JStr s) = Inr s"
| "toString (JArr xs) =
     (case seq (map (\<lambda>x. if x = JNull then Inr [] else toString x) xs) of
        Inl e \<Rightarrow> Inl e
      | Inr ss \<Rightarrow> Inr (join '','' ss))"
| "toString (JObj kvs) =
     (if map_of kvs ''toString'' = None then Inr ''[object Object]'' else Inl NotPrimitive)"

fun ToString :: "json option \<Rightarrow> exn + string" where
  "ToString None = Inr ''undefined''"
| "ToString (Some v) = toString v"

section \<open>\<^verbatim>\<open>JSON.stringify(data, null, 2)\<close>\<close>

definition hexdigit :: "nat \<Rightarrow> char" where
  "hexdigit n = ''0123456789abcdef'' ! (n mod 16)"

text \<open>The escape of one code unit inside a quoted JSON string.\<close>

definition escape :: "char \<Rightarrow> string" where
  "escape c =
     (if c = CHR 0x22 then [CHR 0x5C, CHR 0x22]
      else if c = CHR 0x5C then [CHR 0x5C, CHR 0x5C]
      else if c = CHR 0x08 then [CHR 0x5C, CHR ''b'']
      else if c = CHR 0x09 then [CHR 0x5C, CHR ''t'']
      else if c = CHR 0x0A then [CHR 0x5C, CHR ''n'']
      else if c = CHR 0x0C then [CHR 0x5C, CHR ''f'']
      else if c = CHR 0x0D then [CHR 0x5C, CHR ''r'']
      else if (of_char c :: nat) < 32
        then [CHR 0x5C, CHR ''u'', CHR ''0'', CHR ''0'',
              hexdigit (of_char c div 16), hexdigit (of_char c)]
      else [c])"

definition quote :: "string \<Rightarrow> string" where
  "quote s = [CHR 0x22] @ concat (map escape s) @ [CHR 0x22]"

text \<open>
  The serialization with a gap of two spaces; \<open>indent\<close> is the indentation of the line the
  value starts on. A decoded JSON value holds no \<^verbatim>\<open>undefined\<close>, function or cycle, so
  every property is printed. A number that is not finite prints as \<^verbatim>\<open>null\<close>.
\<close>

fun stringify :: "string \<Rightarrow> json \<Rightarrow> string" where
  "stringify indent JNull = ''null''"
| "stringify indent (JBool b) = (if b then ''true'' else ''false'')"
| "stringify indent (JNum n) = (if n = ''Infinity'' \<or> n = ''-Infinity'' then ''null'' else n)"
| "stringify indent (JStr s) = quote s"
| "stringify indent (JArr xs) =
     (if xs = [] then ''[]''
      else ''['' @ [CHR 0x0A] @ indent @ ''  ''
        @ join ('','' @ [CHR 0x0A] @ indent @ ''  '')
            (map (\<lambda>x. stringify (indent @ ''  '') x) xs)
        @ [CHR 0x0A] @ indent @ '']'')"
| "stringify indent (JObj kvs) =
     (if kvs = [] then ''{}''
      else ''{'' @ [CHR 0x0A] @ indent @ ''  ''
        @ join ('','' @ [CHR 0x0A] @ indent @ ''  '')
            (map (\<lambda>kv. quote (fst kv) @ '': '' @ stringify (indent @ ''  '') (snd kv)) kvs)
        @ [CHR 0x0A] @ indent @ ''}'')"

section \<open>Normalizing the response body\<close>

text \<open>Sequencing of computations that may raise: the first exception ends the evaluation.\<close>

definition then_do :: "exn + 'a \<Rightarrow> ('a \<Rightarrow> exn + 'b) \<Rightarrow> exn + 'b" where
  "then_do r f = (case r of Inl e \<Rightarrow> Inl e | Inr x \<Rightarrow> f x)"

text \<open>\<^verbatim>\<open>v[0]\<close>, raising on null and undefined as every property read does.\<close>

fun get0 :: "json option \<Rightarrow> exn + json option" where
  "get0 None = Inl (NullishRead None ''0'')"
| "get0 (Some JNull) = Inl (NullishRead (Some JNull) ''0'')"
| "get0 (Some v) = Inr (index0 v)"

fun elements :: "json option \<Rightarrow> json list" where
  "elements (Some (JArr xs)) = xs"
| "elements _ = []"

fun isString :: "json option \<Rightarrow> bool" where
  "isString (Some (JStr s)) = True"
| "isString _ = False"

text \<open>The value stored in the state on success: \<^verbatim>\<open>{ content, reasoning }\<close>.\<close>

record normalized =
  content :: "json option"
  reasoning :: "json option"

text \<open>
  The inner loop (lines 103-107): \<^verbatim>\<open>if (part.type === 'output_text') content += part.text\<close>,
  on the content accumulated so far, which is a string.
\<close>

fun forEach_part :: "string \<Rightarrow> json list \<Rightarrow> exn + string" where
  "forEach_part acc [] = Inr acc"
| "forEach_part acc (part # parts) =
     then_do (get (Some part) ''type'') (\<lambda>ty.
       if ty = Some (JStr ''output_text'')
       then then_do (get (Some part) ''text'') (\<lambda>text.
            then_do (ToString text) (\<lambda>s. forEach_part (acc @ s) parts))
       else forEach_part acc parts)"

text \<open>
  The body of the outer loop (lines 100-115) on one item, from the accumulated content and
  the current reasoning to the new ones.
\<close>

definition item_step :: "string \<times> json option \<Rightarrow> json \<Rightarrow> exn + string \<times> json option" where
  "item_step acc item =
     then_do (get (Some item) ''type'') (\<lambda>ty.
     then_do
       (if ty = Some (JStr ''message'')
        then then_do (get (Some item) ''content'') (\<lambda>c.
          if truthy c then
            (if isArray c then forEach_part (fst acc) (elements c)
             else if isString c then then_do (ToString c) (\<lambda>s. Inr (fst acc @ s))
             else Inr (fst acc))
          else Inr (fst acc))
        else Inr (fst acc)) (\<lambda>content'.
     if ty = Some (JStr ''reasoning'')
     then then_do (get (Some item) ''summary'') (\<lambda>summary. Inr (content', summary))
     else Inr (content', snd acc)))"

fun forEach_item :: "string \<times> json option \<Rightarrow> json list \<Rightarrow> exn + string \<times> json option" where
  "forEach_item acc [] = Inr acc"
| "forEach_item acc (item # items) =
     then_do (item_step acc item) (\<lambda>acc'. forEach_item acc' items)"

text \<open>
  The value of \<^verbatim>\<open>data.choices && data.choices[0] && data.choices[0].message\<close> (line 117):
  the first falsy operand, or the last one.
\<close>

definition choices_message :: "json \<Rightarrow> exn + json option" where
  "choices_message data =
     then_do (get (Some data) ''choices'') (\<lambda>choices.
       if \<not> truthy choices then Inr choices
       else then_do (get0 choices) (\<lambda>first.
         if \<not> truthy first then Inr first
         else get first ''message''))"

definition diagnostic :: "json \<Rightarrow> string" where
  "diagnostic data =
     ''Could not parse standard response format. Raw Output:'' @ [CHR 0x0A]
     @ [CHR 0x60, CHR 0x60, CHR 0x60] @ ''json'' @ [CHR 0x0A]
     @ stringify [] data
     @ [CHR 0x0A] @ [CHR 0x60, CHR 0x60, CHR 0x60]"

text \<open>
  Lines 94-127 of \<^verbatim>\<open>handleSearch\<close>: from the decoded body to the stored result, or to
  the exception raised on the way. \<^verbatim>\<open>reasoning\<close> starts as \<^verbatim>\<open>null\<close>.
\<close>

definition normalize :: "json \<Rightarrow> exn + normalized" where
  "normalize data =
     then_do (get (Some data) ''output'') (\<lambda>output.
       if truthy output \<and> isArray output then
         then_do (forEach_item ([], Some JNull) (elements output)) (\<lambda>acc.
           Inr \<lparr>content = Some (JStr (fst acc)), reasoning = snd acc\<rparr>)
       else then_do (choices_message data) (\<lambda>message.
         if truthy message then
           then_do (get message ''content'') (\<lambda>c.
             Inr \<lparr>content = c, reasoning = Some JNull\<rparr>)
         else then_do (get (Some data) ''output_text'') (\<lambda>output_text.
           if truthy output_text then Inr \<lparr>content = output_text, reasoning = Some JNull\<rparr>
           else Inr \<lparr>content = Some (JStr (diagnostic data)), reasoning = Some JNull\<rparr>)))"

section \<open>The platform\<close>

text \<open>
  What the program takes from the JavaScript platform and does not define itself:
  \<^verbatim>\<open>new URL(u).hostname\<close> (\<open>None\<close> when the constructor throws) and the message texts of
  the engine's TypeErrors. They are parameters of the model.
\<close>

record platform =
  hostname :: "string \<Rightarrow> string option"
  nullish_read_text :: "json option \<Rightarrow> string \<Rightarrow> string"
  not_primitive_text :: string

text \<open>\<^verbatim>\<open>err.message\<close> of a caught exception.\<close>

fun message :: "platform \<Rightarrow> exn \<Rightarrow> string" where
  "message P (NullishRead v k) = nullish_read_text P v k"
| "message P NotPrimitive = not_primitive_text P"
| "message P (Error m) = m"

section \<open>Building the request\<close>

record tool =
  tool_type :: string
  allowed_domains :: "string list option"

record msg =
  role :: string
  msg_content :: string

text \<open>The call of \<^verbatim>\<open>fetch\<close>: address, method, headers and the three fields of the body.\<close>

record request =
  url :: string
  http_method :: string
  content_type :: string
  authorization :: string
  model :: string
  tools :: "tool list"
  input :: "msg list"

definition developer_url :: string where
  "developer_url = ''You are a helpful assistant. Search the provided url and give me the company pain points. Format your response in clean Markdown with headers and bullet points.''"

definition developer_name :: string where
  "developer_name = ''You are a helpful assistant. Do web search and give me the company pain points. Format your response in clean Markdown with headers and bullet points.''"

text \<open>Lines 36-42: the hostname of the URL, or the text itself when it does not parse.\<close>

definition domain :: "platform \<Rightarrow> string \<Rightarrow> string" where
  "domain P companyUrl =
     (case hostname P companyUrl of Some h \<Rightarrow> h | None \<Rightarrow> companyUrl)"

text \<open>Lines 30-70: \<^verbatim>\<open>tools\<close> and \<^verbatim>\<open>messages\<close>, chosen by \<^verbatim>\<open>isUrlProvided = !!companyUrl\<close>.\<close>

definition isUrlProvided :: "string \<Rightarrow> bool" where
  "isUrlProvided companyUrl = (companyUrl \<noteq> [])"

definition build_tools :: "platform \<Rightarrow> string \<Rightarrow> tool list" where
  "build_tools P companyUrl =
     (if isUrlProvided companyUrl
      then [\<lparr>tool_type = ''web_search'', allowed_domains = Some [domain P companyUrl]\<rparr>]
      else [\<lparr>tool_type = ''web_search'', allowed_domains = None\<rparr>])"

definition build_messages :: "string \<Rightarrow> string \<Rightarrow> msg list" where
  "build_messages companyName companyUrl =
     (if isUrlProvided companyUrl
      then [\<lparr>role = ''developer'', msg_content = developer_url\<rparr>,
            \<lparr>role = ''user'', msg_content = ''Find pain points for '' @ companyUrl\<rparr>]
      else [\<lparr>role = ''developer'', msg_content = developer_name\<rparr>,
            \<lparr>role = ''user'', msg_content = ''Find pain points for company: '' @ companyName\<rparr>])"

text \<open>Lines 73-84: the request sent.\<close>

definition build_request :: "platform \<Rightarrow> string \<Rightarrow> string \<Rightarrow> string \<Rightarrow> request" where
  "build_request P apiKey companyName companyUrl =
     \<lparr>url = ''https://api.openai.com/v1/responses'',
      http_method = ''POST'',
      content_type = ''application/json'',
      authorization = ''Bearer '' @ apiKey,
      model = ''gpt-5-nano'',
      tools = build_tools P companyUrl,
      input = build_messages companyName companyUrl\<rparr>"

section \<open>The controller\<close>

text \<open>The component's state (lines 8-13); \<open>None\<close> is \<^verbatim>\<open>null\<close>.\<close>

record app_state =
  apiKey :: string
  companyName :: string
  companyUrl :: string
  loading :: bool
  result :: "normalized option"
  error :: "string option"

text \<open>
  What \<^verbatim>\<open>fetch\<close> does with a request: it rejects with an error that has a message, or it
  resolves to a response, whose \<^verbatim>\<open>json()\<close> either fails with an error that has a message
  (\<open>Inl\<close>) or yields the decoded body.
\<close>

record response =
  ok :: bool
  statusText :: string
  json_body :: "string + json"

datatype fetched = Rejected string | Resolved response

text \<open>\<^verbatim>\<open>await response.json()\<close>.\<close>

definition response_json :: "response \<Rightarrow> exn + json" where
  "response_json r = (case json_body r of Inl m \<Rightarrow> Inl (Error m) | Inr d \<Rightarrow> Inr d)"

text \<open>
  \<^verbatim>\<open>errData.error?.message\<close> (line 88): the read of \<^verbatim>\<open>error\<close> raises on a null body; the
  optional chaining yields undefined when \<^verbatim>\<open>error\<close> is null or undefined.
\<close>

definition error_message :: "json \<Rightarrow> exn + json option" where
  "error_message errData =
     then_do (get (Some errData) ''error'') (\<lambda>e.
       if e = None \<or> e = Some JNull then Inr None else get e ''message'')"

text \<open>
  Lines 86-89: \<^verbatim>\<open>throw new Error(errData.error?.message || response.statusText)\<close>; the
  constructor converts its argument to the message string.
\<close>

definition raise_status :: "response \<Rightarrow> exn" where
  "raise_status r =
     (case then_do (response_json r) (\<lambda>errData.
           then_do (error_message errData) (\<lambda>m.
           ToString (if truthy m then m else Some (JStr (statusText r))))) of
        Inl e \<Rightarrow> e
      | Inr text \<Rightarrow> Error text)"

text \<open>The \<^verbatim>\<open>try\<close> block (lines 72-127) after \<^verbatim>\<open>fetch\<close> has settled.\<close>

definition try_block :: "fetched \<Rightarrow> exn + normalized" where
  "try_block f =
     (case f of
        Rejected m \<Rightarrow> Inl (Error m)
      | Resolved r \<Rightarrow>
          if \<not> ok r then Inl (raise_status r)
          else then_do (response_json r) normalize)"

text \<open>Lines 17-24: the message of the validation failure, if any.\<close>

definition validation :: "app_state \<Rightarrow> string option" where
  "validation st =
     (if apiKey st = [] then Some ''API Key not found in environment.''
      else if companyName st = [] \<and> companyUrl st = [] then Some ''Please provide a company name or URL.''
      else None)"

text \<open>Lines 26-28, the state while the request is in flight.\<close>

definition in_flight :: "app_state \<Rightarrow> app_state" where
  "in_flight st = st\<lparr>loading := True, error := None, result := None\<rparr>"

text \<open>Lines 127-133: \<^verbatim>\<open>setResult\<close> or \<^verbatim>\<open>setError\<close>, then \<^verbatim>\<open>setLoading(false)\<close>.\<close>

definition settle :: "platform \<Rightarrow> exn + normalized \<Rightarrow> app_state \<Rightarrow> app_state" where
  "settle P outcome st =
     (case outcome of
        Inr r \<Rightarrow> st\<lparr>result := Some r, loading := False\<rparr>
      | Inl e \<Rightarrow> st\<lparr>error := Some (message P e), loading := False\<rparr>)"

text \<open>
  \<^verbatim>\<open>handleSearch\<close>: the state once the handler has finished, and the requests it has passed
  to \<^verbatim>\<open>fetch\<close>, in order. \<open>send\<close> is the transport.
\<close>

definition handleSearch ::
  "platform \<Rightarrow> (request \<Rightarrow> fetched) \<Rightarrow> app_state \<Rightarrow> app_state \<times> request list" where
  "handleSearch P send st =
     (case validation st of
        Some m \<Rightarrow> (st\<lparr>error := Some m\<rparr>, [])
      | None \<Rightarrow>
          let req = build_request P (apiKey st) (companyName st) (companyUrl st)
          in (settle P (try_block (send req)) (in_flight st), [req]))"

section \<open>The output shape, as the specification words it\<close>

text \<open>
  A second description of the first shape, following the specification's sentence and not
  the code: the content is the concatenation, over the items of kind \<^verbatim>\<open>message\<close> in order,
  of the texts of the parts of kind \<^verbatim>\<open>output_text\<close> in order (or of the content itself when
  it is a string); the reasoning is the summary of the last item of kind \<^verbatim>\<open>reasoning\<close>.
\<close>

definition kind :: "json \<Rightarrow> string \<Rightarrow> bool" where
  "kind v k = (property v ''type'' = Some (JStr k))"

definition spec_part_text :: "json \<Rightarrow> string" where
  "spec_part_text part = (case property part ''text'' of Some (JStr t) \<Rightarrow> t | _ \<Rightarrow> [])"

definition spec_message_text :: "json \<Rightarrow> string" where
  "spec_message_text item =
     (case property item ''content'' of
        Some (JArr parts) \<Rightarrow>
          concat (map spec_part_text (filter (\<lambda>part. kind part ''output_text'') parts))
      | Some (JStr s) \<Rightarrow> s
      | _ \<Rightarrow> [])"

definition spec_content :: "json list \<Rightarrow> string" where
  "spec_content items =
     concat (map spec_message_text (filter (\<lambda>item. kind item ''message'') items))"

definition spec_reasoning :: "json list \<Rightarrow> json option" where
  "spec_reasoning items =
     (case filter (\<lambda>item. kind item ''reasoning'') items of
        [] \<Rightarrow> Some JNull
      | rs \<Rightarrow> property (last rs) ''summary'')"

text \<open>
  The inputs of that shape on which no read fails: no item is null, and in a message item
  whose content is a sequence no part is null and every part of kind \<^verbatim>\<open>output_text\<close> has a
  string as its text.
\<close>

definition well_formed_part :: "json \<Rightarrow> bool" where
  "well_formed_part part =
     (part \<noteq> JNull \<and> (kind part ''output_text'' \<longrightarrow> isString (property part ''text'')))"

definition well_formed_item :: "json \<Rightarrow> bool" where
  "well_formed_item item =
     (item \<noteq> JNull \<and>
      (kind item ''message'' \<longrightarrow>
         list_all well_formed_part (elements (property item ''content''))))"

section \<open>Sample inputs\<close>

text \<open>
  A concrete platform for the examples: the hostnames of the two URLs they use, and the
  message texts of the V8 engine.
\<close>

definition sample_platform :: platform where
  "sample_platform =
     \<lparr>hostname = (\<lambda>u. if u = ''https://acme.com/about'' then Some ''acme.com''
                      else if u = ''https://tesla.com'' then Some ''tesla.com''
                      else None),
      nullish_read_text = (\<lambda>v k. ''Cannot read properties of ''
                      @ (if v = None then ''undefined'' else ''null'')
                      @ '' (reading '' @ [CHR 0x27] @ k @ [CHR 0x27] @ '')''),
      not_primitive_text = ''Cannot convert object to primitive value''\<rparr>"

definition sample_state :: "string \<Rightarrow> string \<Rightarrow> string \<Rightarrow> app_state" where
  "sample_state key name u =
     \<lparr>apiKey = key, companyName = name, companyUrl = u, loading = False,
      result = None, error = None\<rparr>"

text \<open>A state that shows the result of an earlier search.\<close>

definition shown_state :: "string \<Rightarrow> string \<Rightarrow> string \<Rightarrow> app_state" where
  "shown_state key name u =
     \<lparr>apiKey = key, companyName = name, companyUrl = u, loading = False,
      result = Some \<lparr>content = Some (JStr ''earlier analysis''), reasoning = Some JNull\<rparr>,
      error = None\<rparr>"

text \<open>Transports that answer every request alike.\<close>

definition offline :: "request \<Rightarrow> fetched" where
  "offline req = Rejected ''Failed to fetch''"

definition answering :: "bool \<Rightarrow> string \<Rightarrow> string + json \<Rightarrow> request \<Rightarrow> fetched" where
  "answering success status body req =
     Resolved \<lparr>ok = success, statusText = status, json_body = body\<rparr>"

section \<open>Basic facts\<close>

lemma then_do_Inl [simp]: "then_do (Inl e) f = Inl e"
  by (simp add: then_do_def)

lemma then_do_Inr [simp]: "then_do (Inr x) f = f x"
  by (simp add: then_do_def)

lemma get_non_null: "v \<noteq> JNull \<Longrightarrow> get (Some v) k = Inr (property v k)"
  by (cases v) simp_all

lemma truthy_non_null: "truthy m \<Longrightarrow> \<exists>v. m = Some v \<and> v \<noteq> JNull"
proof (cases m)
  case None
  then show "truthy m \<Longrightarrow> ?thesis" by simp
next
  case (Some v)
  then show "truthy m \<Longrightarrow> ?thesis" by (cases v) simp_all
qed

lemma isString_cases: "isString v \<Longrightarrow> \<exists>s. v = Some (JStr s)"
  by (cases v rule: isString.cases) simp_all

section \<open>Properties of the normalization\<close>

text \<open>
  A body that is not null and whose \<^verbatim>\<open>output\<close> is not a sequence never makes the
  normalization raise: the chain of guards on \<^verbatim>\<open>choices\<close> reads only from truthy values.
\<close>

lemma choices_message_total:
  "data \<noteq> JNull \<Longrightarrow> \<exists>m. choices_message data = Inr m"
proof -
  assume d: "data \<noteq> JNull"
  show ?thesis
  proof (cases "truthy (property data ''choices'')")
    case False
    then show ?thesis using d by (simp add: choices_message_def get_non_null)
  next
    case True
    then obtain c where c: "property data ''choices'' = Some c" and cn: "c \<noteq> JNull"
      using truthy_non_null by blast
    show ?thesis
    proof (cases "truthy (index0 c)")
      case False
      then show ?thesis using d c cn True
        by (cases c) (simp_all add: choices_message_def get_non_null)
    next
      case t: True
      then obtain f where f: "index0 c = Some f" and fn: "f \<noteq> JNull"
        using truthy_non_null by blast
      then show ?thesis using d c cn True t
        by (cases c) (simp_all add: choices_message_def get_non_null)
    qed
  qed
qed

lemma normalize_total_without_output:
  assumes "data \<noteq> JNull" and "\<not> isArray (property data ''output'')"
  shows "\<exists>r. normalize data = Inr r"
proof -
  obtain m where m: "choices_message data = Inr m"
    using choices_message_total [OF assms(1)] by blast
  show ?thesis
  proof (cases "truthy m")
    case True
    then obtain v where "m = Some v" "v \<noteq> JNull" using truthy_non_null by blast
    then show ?thesis using assms m True
      by (simp add: normalize_def get_non_null)
  next
    case False
    then show ?thesis using assms m
      by (simp add: normalize_def get_non_null)
  qed
qed

text \<open>
  The three rules after the output sequence, in the code's order: the guard on
  \<^verbatim>\<open>choices\<close>, then a truthy \<^verbatim>\<open>output_text\<close>, then the diagnostic.
\<close>

lemma normalize_choices_rule:
  assumes "data \<noteq> JNull" and "\<not> isArray (property data ''output'')"
    and "choices_message data = Inr (Some m)" and "truthy (Some m)"
  shows "normalize data = Inr \<lparr>content = property m ''content'', reasoning = Some JNull\<rparr>"
proof -
  from assms(4) have "m \<noteq> JNull" using truthy_non_null by blast
  then show ?thesis using assms
    by (simp add: normalize_def get_non_null)
qed

lemma normalize_output_text_rule:
  assumes "data \<noteq> JNull" and "\<not> isArray (property data ''output'')"
    and "choices_message data = Inr m" and "\<not> truthy m"
    and "truthy (property data ''output_text'')"
  shows "normalize data = Inr \<lparr>content = property data ''output_text'', reasoning = Some JNull\<rparr>"
  using assms by (simp add: normalize_def get_non_null)

lemma normalize_fallback_rule:
  assumes "data \<noteq> JNull" and "\<not> isArray (property data ''output'')"
    and "choices_message data = Inr m" and "\<not> truthy m"
    and "\<not> truthy (property data ''output_text'')"
  shows "normalize data = Inr \<lparr>content = Some (JStr (diagnostic data)), reasoning = Some JNull\<rparr>"
  using assms by (simp add: normalize_def get_non_null)

text \<open>The null body, and a null item of the output sequence, raise a TypeError.\<close>

lemma normalize_null: "normalize JNull = Inl (NullishRead (Some JNull) ''output'')"
  by (simp add: normalize_def)

lemma normalize_null_item:
  "normalize (JObj [(''output'', JArr [JNull])]) = Inl (NullishRead (Some JNull) ''type'')"
  by (simp add: normalize_def item_step_def)

text \<open>The specification's examples of the second, third and fourth shape.\<close>

lemma normalize_unrecognized:
  "normalize (JObj [(''foo'', JStr ''bar'')])
     = Inr \<lparr>content = Some (JStr (diagnostic (JObj [(''foo'', JStr ''bar'')]))),
            reasoning = Some JNull\<rparr>"
  by (simp add: normalize_def choices_message_def)

lemma stringify_foo_bar:
  "stringify [] (JObj [(''foo'', JStr ''bar'')])
     = ''{'' @ [CHR 0x0A] @ ''  '' @ [CHR 0x22] @ ''foo'' @ [CHR 0x22] @ '': ''
       @ [CHR 0x22] @ ''bar'' @ [CHR 0x22] @ [CHR 0x0A] @ ''}''"
  by (simp add: quote_def escape_def)

lemma normalize_choices:
  "normalize (JObj [(''choices'', JArr [JObj [(''message'', JObj [(''content'', JStr ''X'')])]])])
     = Inr \<lparr>content = Some (JStr ''X''), reasoning = Some JNull\<rparr>"
  by (simp add: normalize_def choices_message_def)

lemma normalize_output_text:
  "normalize (JObj [(''output_text'', JStr ''Y'')])
     = Inr \<lparr>content = Some (JStr ''Y''), reasoning = Some JNull\<rparr>"
  by (simp add: normalize_def choices_message_def)

text \<open>
  An empty \<^verbatim>\<open>output_text\<close> is falsy and leads to the diagnostic; a part of kind
  \<^verbatim>\<open>output_text\<close> without text appends the string \<^verbatim>\<open>undefined\<close>.
\<close>

lemma normalize_empty_output_text:
  "normalize (JObj [(''output_text'', JStr [])])
     = Inr \<lparr>content = Some (JStr (diagnostic (JObj [(''output_text'', JStr [])]))),
            reasoning = Some JNull\<rparr>"
  by (simp add: normalize_def choices_message_def)

lemma normalize_part_without_text:
  "normalize (JObj [(''output'', JArr [JObj [(''type'', JStr ''message''),
       (''content'', JArr [JObj [(''type'', JStr ''output_text'')]])]])])
     = Inr \<lparr>content = Some (JStr ''undefined''), reasoning = Some JNull\<rparr>"
  by (simp add: normalize_def item_step_def)

text \<open>
  C1. The claim: for every raw JSON response value the normalization never raises and its
  content is always a defined string. The code at the body
  \<^verbatim>\<open>{ "choices": [ { "message": {} } ] }\<close>: the guard of line 117 tests \<^verbatim>\<open>message\<close> and not
  \<^verbatim>\<open>message.content\<close>, so line 119 assigns \<^verbatim>\<open>undefined\<close> to the content, and the handler
  stores a result whose content is undefined, against the comment of line 12 that gives the
  result the type \<^verbatim>\<open>{ content: string, reasoning: string | null }\<close>.
\<close>

theorem content_undefined:
  "normalize (JObj [(''choices'', JArr [JObj [(''message'', JObj [])]])])
     = Inr \<lparr>content = None, reasoning = Some JNull\<rparr>
   \<and> result (fst (handleSearch sample_platform
        (answering True ''OK'' (Inr (JObj [(''choices'', JArr [JObj [(''message'', JObj [])]])])))
        (sample_state ''sk-1'' ''Tesla'' [])))
     = Some \<lparr>content = None, reasoning = Some JNull\<rparr>"
  by (simp add: normalize_def choices_message_def handleSearch_def validation_def
      sample_state_def Let_def answering_def try_block_def response_json_def settle_def)

text \<open>
  C2. The claim: shape detection follows the order output sequence, choices entry whose
  \<^verbatim>\<open>message.content\<close> exists, top-level \<^verbatim>\<open>output_text\<close>, diagnostic fallback, and a response
  whose \<^verbatim>\<open>choices[0].message\<close> exists without a content field does not match the second
  rule. The code at the body
  \<^verbatim>\<open>{ "choices": [ { "message": {} } ], "output_text": "Y" }\<close>: the guard of line 117 is
  truthy, the second rule is taken, and the content is undefined and not the \<^verbatim>\<open>"Y"\<close> of the
  third rule.
\<close>

theorem message_without_content_matches:
  "choices_message (JObj [(''choices'', JArr [JObj [(''message'', JObj [])]]),
                          (''output_text'', JStr ''Y'')]) = Inr (Some (JObj []))
   \<and> truthy (Some (JObj []))
   \<and> normalize (JObj [(''choices'', JArr [JObj [(''message'', JObj [])]]),
                      (''output_text'', JStr ''Y'')])
       = Inr \<lparr>content = None, reasoning = Some JNull\<rparr>"
  by (simp add: normalize_def choices_message_def)

subsection \<open>The output shape\<close>

lemma forEach_part_spec:
  "list_all well_formed_part parts \<Longrightarrow>
   forEach_part acc parts
     = Inr (acc @ concat (map spec_part_text (filter (\<lambda>part. kind part ''output_text'') parts)))"
proof (induction parts arbitrary: acc)
  case Nil
  then show ?case by simp
next
  case (Cons part parts)
  then have wf: "well_formed_part part" and rest: "list_all well_formed_part parts"
    by simp_all
  from wf have nn: "part \<noteq> JNull" by (simp add: well_formed_part_def)
  show ?case
  proof (cases "kind part ''output_text''")
    case True
    with wf obtain t where t: "property part ''text'' = Some (JStr t)"
      using isString_cases by (auto simp: well_formed_part_def)
    from True have ty: "property part ''type'' = Some (JStr ''output_text'')"
      by (simp add: kind_def)
    show ?thesis
      using True by (simp add: get_non_null [OF nn] ty t spec_part_text_def Cons.IH [OF rest])
  next
    case False
    then have ty: "property part ''type'' \<noteq> Some (JStr ''output_text'')"
      by (simp add: kind_def)
    show ?thesis
      using False by (simp add: get_non_null [OF nn] ty Cons.IH [OF rest])
  qed
qed

lemma item_step_spec:
  assumes "well_formed_item item"
  shows "item_step acc item
     = Inr (fst acc @ (if kind item ''message'' then spec_message_text item else []),
            if kind item ''reasoning'' then property item ''summary'' else snd acc)"
proof -
  from assms have nn: "item \<noteq> JNull" by (simp add: well_formed_item_def)
  have distinct_kinds: "\<not> (kind item ''message'' \<and> kind item ''reasoning'')"
    by (auto simp: kind_def)
  show ?thesis
  proof (cases "kind item ''message''")
    case False
    then show ?thesis
      by (simp add: item_step_def get_non_null [OF nn] kind_def)
  next
    case True
    then have ty: "property item ''type'' = Some (JStr ''message'')"
      by (simp add: kind_def)
    from True assms have parts: "list_all well_formed_part (elements (property item ''content''))"
      by (simp add: well_formed_item_def)
    have nr: "\<not> kind item ''reasoning''" using True distinct_kinds by blast
    have step: "item_step acc item
        = then_do (if truthy (property item ''content'') then
            (if isArray (property item ''content'')
             then forEach_part (fst acc) (elements (property item ''content''))
             else if isString (property item ''content'')
               then then_do (ToString (property item ''content'')) (\<lambda>s. Inr (fst acc @ s))
             else Inr (fst acc))
           else Inr (fst acc)) (\<lambda>content'. Inr (content', snd acc))"
      by (simp add: item_step_def get_non_null [OF nn] ty)
    show ?thesis
    proof (cases "property item ''content''")
      case None
      then show ?thesis using True nr by (simp add: step spec_message_text_def)
    next
      case (Some c)
      show ?thesis
      proof (cases c)
        case (JArr ps)
        with Some parts have "list_all well_formed_part ps" by simp
        then show ?thesis using True nr Some JArr
          by (simp add: step spec_message_text_def forEach_part_spec)
      qed (use True nr Some in \<open>simp_all add: step spec_message_text_def\<close>)
    qed
  qed
qed

lemma forEach_item_spec:
  "list_all well_formed_item items \<Longrightarrow>
   forEach_item acc items
     = Inr (fst acc @ spec_content items,
            case filter (\<lambda>item. kind item ''reasoning'') items of
              [] \<Rightarrow> snd acc
            | rs \<Rightarrow> property (last rs) ''summary'')"
proof (induction items arbitrary: acc)
  case Nil
  then show ?case by (simp add: spec_content_def)
next
  case (Cons item items)
  then have wf: "well_formed_item item" and rest: "list_all well_formed_item items"
    by simp_all
  show ?case
    by (simp add: item_step_spec [OF wf] Cons.IH [OF rest] spec_content_def
        split: list.splits)
qed

text \<open>
  C3, amended. The claim speaks of every input of the output-sequence shape; a null item or
  a null part makes a read raise. For every input of that shape in which no item is null,
  no part of a message item's sequence content is null and every part of kind
  \<^verbatim>\<open>output_text\<close> has a string as its text, the normalization goes through the items in
  order: a message item with sequence content appends the text of each of its parts of kind
  \<^verbatim>\<open>output_text\<close>, in order, a message item with string content appends that string, and
  an item of kind \<^verbatim>\<open>reasoning\<close> sets the reasoning to its summary, the last one winning.
  The code's loops with their accumulators compute what the specification's wording
  describes.
\<close>

theorem output_shape_extraction:
  assumes "property data ''output'' = Some (JArr items)"
    and "list_all well_formed_item items"
  shows "normalize data
     = Inr \<lparr>content = Some (JStr (spec_content items)), reasoning = spec_reasoning items\<rparr>"
proof -
  from assms(1) have nn: "data \<noteq> JNull" by auto
  show ?thesis
    using assms
    by (simp add: normalize_def get_non_null [OF nn] forEach_item_spec spec_reasoning_def
        split: list.splits)
qed

text \<open>
  An instance with two reasoning items, a message of three parts (one of another kind) and a
  message with string content; it contains the specification's \<^verbatim>\<open>"Hello, "\<close> and
  \<^verbatim>\<open>"world."\<close>.
\<close>

theorem output_shape_extraction_witness:
  "normalize (JObj [(''output'', JArr
       [JObj [(''type'', JStr ''reasoning''), (''summary'', JStr ''first'')],
        JObj [(''type'', JStr ''message''),
              (''content'', JArr [JObj [(''type'', JStr ''output_text''), (''text'', JStr ''Hello, '')],
                                  JObj [(''type'', JStr ''refusal''), (''text'', JStr ''no'')],
                                  JObj [(''type'', JStr ''output_text''), (''text'', JStr ''world.'')]])],
        JObj [(''type'', JStr ''reasoning''), (''summary'', JStr ''second'')],
        JObj [(''type'', JStr ''message''), (''content'', JStr '' Bye.'')]])])
     = Inr \<lparr>content = Some (JStr ''Hello, world. Bye.''), reasoning = Some (JStr ''second'')\<rparr>"
  using output_shape_extraction [of
      "JObj [(''output'', JArr
       [JObj [(''type'', JStr ''reasoning''), (''summary'', JStr ''first'')],
        JObj [(''type'', JStr ''message''),
              (''content'', JArr [JObj [(''type'', JStr ''output_text''), (''text'', JStr ''Hello, '')],
                                  JObj [(''type'', JStr ''refusal''), (''text'', JStr ''no'')],
                                  JObj [(''type'', JStr ''output_text''), (''text'', JStr ''world.'')]])],
        JObj [(''type'', JStr ''reasoning''), (''summary'', JStr ''second'')],
        JObj [(''type'', JStr ''message''), (''content'', JStr '' Bye.'')]])]"
      "[JObj [(''type'', JStr ''reasoning''), (''summary'', JStr ''first'')],
        JObj [(''type'', JStr ''message''),
              (''content'', JArr [JObj [(''type'', JStr ''output_text''), (''text'', JStr ''Hello, '')],
                                  JObj [(''type'', JStr ''refusal''), (''text'', JStr ''no'')],
                                  JObj [(''type'', JStr ''output_text''), (''text'', JStr ''world.'')]])],
        JObj [(''type'', JStr ''reasoning''), (''summary'', JStr ''second'')],
        JObj [(''type'', JStr ''message''), (''content'', JStr '' Bye.'')]]"]
  by (simp add: well_formed_item_def well_formed_part_def kind_def spec_content_def
      spec_message_text_def spec_part_text_def spec_reasoning_def)

text \<open>
  A null item after a message item with content \<^verbatim>\<open>"A"\<close>: the read of its type raises, the
  handler stores no result, and the \<^verbatim>\<open>"A"\<close> is lost. A part of kind \<^verbatim>\<open>output_text\<close>
  without text appends the string \<^verbatim>\<open>undefined\<close>.
\<close>

theorem output_reads_raise:
  "normalize (JObj [(''output'', JArr [JObj [(''type'', JStr ''message''), (''content'', JStr ''A'')],
                                       JNull])])
     = Inl (NullishRead (Some JNull) ''type'')
   \<and> normalize (JObj [(''output'', JArr [JObj [(''type'', JStr ''message''), (''content'', JStr ''A'')],
                                       JNull])])
     \<noteq> Inr \<lparr>content = Some (JStr ''A''), reasoning = Some JNull\<rparr>
   \<and> result (fst (handleSearch sample_platform
        (answering True ''OK''
           (Inr (JObj [(''output'', JArr [JObj [(''type'', JStr ''message''), (''content'', JStr ''A'')],
                                          JNull])])))
        (sample_state ''sk-1'' ''Tesla'' []))) = None
   \<and> normalize (JObj [(''output'', JArr [JObj [(''type'', JStr ''message''),
         (''content'', JArr [JObj [(''type'', JStr ''output_text'')]])]])])
     = Inr \<lparr>content = Some (JStr ''undefined''), reasoning = Some JNull\<rparr>"
  by (simp add: normalize_def item_step_def handleSearch_def validation_def sample_state_def
      Let_def answering_def try_block_def response_json_def settle_def in_flight_def)

section \<open>The request built\<close>

text \<open>
  C6. For every URL target \<open>u\<close> the request is built (the function is total): the single
  \<^verbatim>\<open>web_search\<close> tool is restricted to the hostname of \<open>u\<close> when \<open>u\<close> parses as a URL and to
  \<open>u\<close> itself when it does not, and the user message is \<^verbatim>\<open>Find pain points for\<close> followed by
  \<open>u\<close> as typed.
\<close>

theorem url_target_request:
  assumes "u \<noteq> []"
  shows "(\<forall>h. hostname P u = Some h \<longrightarrow>
            tools (build_request P key n u)
              = [\<lparr>tool_type = ''web_search'', allowed_domains = Some [h]\<rparr>])
         \<and> (hostname P u = None \<longrightarrow>
            tools (build_request P key n u)
              = [\<lparr>tool_type = ''web_search'', allowed_domains = Some [u]\<rparr>])
         \<and> input (build_request P key n u) ! 1
              = \<lparr>role = ''user'', msg_content = ''Find pain points for '' @ u\<rparr>"
  using assms
  by (simp add: build_request_def build_tools_def build_messages_def isUrlProvided_def domain_def)

theorem url_target_request_witness:
  "''https://tesla.com'' \<noteq> []
   \<and> hostname sample_platform ''https://tesla.com'' = Some ''tesla.com''
   \<and> tools (build_request sample_platform ''sk-1'' [] ''https://tesla.com'')
        = [\<lparr>tool_type = ''web_search'', allowed_domains = Some [''tesla.com'']\<rparr>]
   \<and> ''not a url'' \<noteq> [] \<and> hostname sample_platform ''not a url'' = None
   \<and> tools (build_request sample_platform ''sk-1'' [] ''not a url'')
        = [\<lparr>tool_type = ''web_search'', allowed_domains = Some [''not a url'']\<rparr>]
   \<and> input (build_request sample_platform ''sk-1'' [] ''https://tesla.com'') ! 1
        = \<lparr>role = ''user'', msg_content = ''Find pain points for https://tesla.com''\<rparr>"
  using url_target_request [of "''https://tesla.com''" sample_platform "''sk-1''" "[]"]
    url_target_request [of "''not a url''" sample_platform "''sk-1''" "[]"]
  by (simp add: sample_platform_def)

text \<open>
  C7. Every built request holds exactly two messages, a developer message followed by a user
  message, and exactly one tool; for a name target \<open>n\<close> (no URL given) the tool is an
  unrestricted \<^verbatim>\<open>web_search\<close> and the user message is
  \<^verbatim>\<open>Find pain points for company: n\<close>.
\<close>

theorem request_shape:
  "(\<exists>d u. input (build_request P key n url0) = [d, u] \<and> role d = ''developer'' \<and> role u = ''user'')
   \<and> length (tools (build_request P key n url0)) = 1
   \<and> (url0 = [] \<longrightarrow>
        tools (build_request P key n url0) = [\<lparr>tool_type = ''web_search'', allowed_domains = None\<rparr>]
        \<and> input (build_request P key n url0) ! 1
            = \<lparr>role = ''user'', msg_content = ''Find pain points for company: '' @ n\<rparr>)"
  by (simp add: build_request_def build_tools_def build_messages_def isUrlProvided_def)

theorem request_shape_witness:
  "tools (build_request sample_platform ''sk-1'' ''Tesla'' [])
     = [\<lparr>tool_type = ''web_search'', allowed_domains = None\<rparr>]
   \<and> input (build_request sample_platform ''sk-1'' ''Tesla'' []) ! 1
     = \<lparr>role = ''user'', msg_content = ''Find pain points for company: Tesla''\<rparr>
   \<and> length (input (build_request sample_platform ''sk-1'' ''Tesla'' [])) = 2"
  using request_shape [of sample_platform "''sk-1''" "''Tesla''" "[]"]
  by auto

section \<open>Validation and dispatch\<close>

lemma validation_None_iff:
  "validation st = None \<longleftrightarrow> apiKey st \<noteq> [] \<and> (companyName st \<noteq> [] \<or> companyUrl st \<noteq> [])"
  by (auto simp: validation_def)

lemma handleSearch_valid:
  "validation st = None \<Longrightarrow>
   handleSearch P send st =
     (settle P (try_block (send (build_request P (apiKey st) (companyName st) (companyUrl st))))
        (in_flight st),
      [build_request P (apiKey st) (companyName st) (companyUrl st)])"
  by (simp add: handleSearch_def Let_def)

lemma handleSearch_invalid:
  "validation st = Some m \<Longrightarrow> handleSearch P send st = (st\<lparr>error := Some m\<rparr>, [])"
  by (simp add: handleSearch_def)

text \<open>
  C5. The two guards come first and in order: with an empty credential the state becomes
  failed with \<^verbatim>\<open>API Key not found in environment.\<close> and nothing is sent; otherwise, with an
  empty name and an empty URL, the state becomes failed with
  \<^verbatim>\<open>Please provide a company name or URL.\<close> and nothing is sent.
\<close>

theorem validation_guards_in_order:
  "(apiKey st = [] \<longrightarrow>
      handleSearch P send st = (st\<lparr>error := Some ''API Key not found in environment.''\<rparr>, []))
   \<and> (apiKey st \<noteq> [] \<and> companyName st = [] \<and> companyUrl st = [] \<longrightarrow>
      handleSearch P send st = (st\<lparr>error := Some ''Please provide a company name or URL.''\<rparr>, []))"
  by (simp add: handleSearch_def validation_def)

theorem validation_guards_in_order_witness:
  "apiKey (sample_state [] ''Tesla'' []) = []
   \<and> handleSearch sample_platform offline (sample_state [] ''Tesla'' [])
       = ((sample_state [] ''Tesla'' [])\<lparr>error := Some ''API Key not found in environment.''\<rparr>, [])
   \<and> apiKey (sample_state ''sk-1'' [] []) \<noteq> []
   \<and> companyName (sample_state ''sk-1'' [] []) = [] \<and> companyUrl (sample_state ''sk-1'' [] []) = []
   \<and> handleSearch sample_platform offline (sample_state ''sk-1'' [] [])
       = ((sample_state ''sk-1'' [] [])\<lparr>error := Some ''Please provide a company name or URL.''\<rparr>, [])"
  using validation_guards_in_order [of "sample_state [] ''Tesla'' []" sample_platform offline]
    validation_guards_in_order [of "sample_state ''sk-1'' [] []" sample_platform offline]
  by (simp add: sample_state_def)

text \<open>
  C4, amended. The claim has a submission with both a name and a URL fail validation. The
  code rejects a submission (with a credential) only when both are empty; when at least one
  of them is given, in particular when both are, validation passes and exactly one request
  is sent.
\<close>

theorem target_validation:
  assumes "apiKey st \<noteq> []"
  shows "(companyName st = [] \<and> companyUrl st = [] \<longrightarrow>
            handleSearch P send st
              = (st\<lparr>error := Some ''Please provide a company name or URL.''\<rparr>, []))
         \<and> (companyName st \<noteq> [] \<or> companyUrl st \<noteq> [] \<longrightarrow>
            validation st = None \<and> length (snd (handleSearch P send st)) = 1)"
  using assms by (simp add: handleSearch_def validation_def Let_def)

theorem target_validation_witness:
  "apiKey (sample_state ''sk-1'' ''Acme'' ''https://acme.com/about'') \<noteq> []
   \<and> companyName (sample_state ''sk-1'' ''Acme'' ''https://acme.com/about'') \<noteq> []
   \<and> companyUrl (sample_state ''sk-1'' ''Acme'' ''https://acme.com/about'') \<noteq> []
   \<and> length (snd (handleSearch sample_platform offline
        (sample_state ''sk-1'' ''Acme'' ''https://acme.com/about''))) = 1
   \<and> handleSearch sample_platform offline (sample_state ''sk-1'' [] [])
        = ((sample_state ''sk-1'' [] [])\<lparr>error := Some ''Please provide a company name or URL.''\<rparr>, [])"
  using target_validation [of "sample_state ''sk-1'' ''Acme'' ''https://acme.com/about''"
      sample_platform offline]
    target_validation [of "sample_state ''sk-1'' [] []" sample_platform offline]
  by (simp add: sample_state_def)

text \<open>
  A submission with a credential, the name \<^verbatim>\<open>Acme\<close> and the URL
  \<^verbatim>\<open>https://acme.com/about\<close> is not rejected: one request is sent.
\<close>

theorem both_inputs_not_rejected:
  "\<not> (error (fst (handleSearch sample_platform offline
                  (sample_state ''sk-1'' ''Acme'' ''https://acme.com/about'')))
        = Some ''Please provide a company name or URL.''
      \<and> snd (handleSearch sample_platform offline
                  (sample_state ''sk-1'' ''Acme'' ''https://acme.com/about'')) = [])"
  by (simp add: handleSearch_def validation_def sample_state_def Let_def)

text \<open>
  C10. When both the name and the URL are given, the submission is the URL case: the one
  request sent has the domain-filtered tool and the URL's two messages, and it is the same
  whatever the name is.
\<close>

theorem both_inputs_url_wins:
  assumes "apiKey st \<noteq> []" and "companyName st \<noteq> []" and "companyUrl st \<noteq> []"
  shows "\<exists>req. snd (handleSearch P send st) = [req]
           \<and> tools req = [\<lparr>tool_type = ''web_search'',
                            allowed_domains = Some [domain P (companyUrl st)]\<rparr>]
           \<and> input req = [\<lparr>role = ''developer'', msg_content = developer_url\<rparr>,
                           \<lparr>role = ''user'',
                            msg_content = ''Find pain points for '' @ companyUrl st\<rparr>]
           \<and> (\<forall>n. snd (handleSearch P send (st\<lparr>companyName := n\<rparr>)) = [req])"
  using assms
  by (simp add: handleSearch_def validation_def Let_def build_request_def build_tools_def
      build_messages_def isUrlProvided_def)

theorem both_inputs_url_wins_witness:
  "snd (handleSearch sample_platform offline (sample_state ''sk-1'' ''Acme'' ''https://acme.com/about''))
     = [build_request sample_platform ''sk-1'' ''ignored'' ''https://acme.com/about'']"
  using both_inputs_url_wins [of "sample_state ''sk-1'' ''Acme'' ''https://acme.com/about''"
      sample_platform offline]
  by (simp add: sample_state_def handleSearch_def validation_def Let_def build_request_def
      build_tools_def build_messages_def isUrlProvided_def)

text \<open>
  C9, amended. The claim has the prior result and error cleared before validation. The code
  validates first (lines 17-24) and clears afterwards (lines 26-28): a submission that
  passes validation is dispatched from a state without result and error, and its outcome
  does not depend on the prior ones; a submission that fails validation only replaces the
  error, and the prior result stays.
\<close>

theorem reset_after_validation:
  "(validation st = None \<longrightarrow>
      result (in_flight st) = None \<and> error (in_flight st) = None
      \<and> (\<forall>r e. handleSearch P send (st\<lparr>result := r, error := e\<rparr>) = handleSearch P send st)
      \<and> ((\<exists>r. result (fst (handleSearch P send st)) = Some r
               \<and> error (fst (handleSearch P send st)) = None)
         \<or> (\<exists>m. error (fst (handleSearch P send st)) = Some m
               \<and> result (fst (handleSearch P send st)) = None)))
   \<and> (\<forall>m. validation st = Some m \<longrightarrow>
        fst (handleSearch P send st) = st\<lparr>error := Some m\<rparr>
        \<and> result (fst (handleSearch P send st)) = result st)"
  by (auto simp: handleSearch_def validation_def in_flight_def settle_def Let_def
      split: sum.splits)

theorem reset_after_validation_witness:
  "validation (shown_state ''sk-1'' ''Tesla'' []) = None
   \<and> result (fst (handleSearch sample_platform offline (shown_state ''sk-1'' ''Tesla'' []))) = None
   \<and> error (fst (handleSearch sample_platform offline (shown_state ''sk-1'' ''Tesla'' [])))
       = Some ''Failed to fetch''
   \<and> validation (shown_state [] ''Tesla'' []) = Some ''API Key not found in environment.''
   \<and> result (fst (handleSearch sample_platform offline (shown_state [] ''Tesla'' [])))
       = result (shown_state [] ''Tesla'' [])"
  using reset_after_validation [of "shown_state ''sk-1'' ''Tesla'' []" sample_platform offline]
    reset_after_validation [of "shown_state [] ''Tesla'' []" sample_platform offline]
  by (simp add: handleSearch_def validation_def in_flight_def settle_def Let_def
      shown_state_def try_block_def offline_def)

text \<open>
  A state that shows an earlier result still shows it after a submission that fails either
  guard.
\<close>

theorem stale_result_survives:
  "result (fst (handleSearch sample_platform offline (shown_state [] ''Tesla'' [])))
     = Some \<lparr>content = Some (JStr ''earlier analysis''), reasoning = Some JNull\<rparr>
   \<and> result (fst (handleSearch sample_platform offline (shown_state ''sk-1'' [] [])))
     = Some \<lparr>content = Some (JStr ''earlier analysis''), reasoning = Some JNull\<rparr>"
  by (simp add: handleSearch_def validation_def shown_state_def)

subsection \<open>A response without success status\<close>

lemma settle_Inl: "settle P (Inl e) st = st\<lparr>error := Some (message P e), loading := False\<rparr>"
  by (simp add: settle_def)

lemma try_block_not_ok: "\<not> ok r \<Longrightarrow> try_block (Resolved r) = Inl (raise_status r)"
  by (simp add: try_block_def)

lemma raise_status_undecodable: "json_body r = Inl m \<Longrightarrow> raise_status r = Error m"
  by (simp add: raise_status_def response_json_def)

lemma raise_status_field:
  "json_body r = Inr d \<Longrightarrow> error_message d = Inr m \<Longrightarrow> truthy m \<Longrightarrow> ToString m = Inr s \<Longrightarrow>
   raise_status r = Error s"
  by (simp add: raise_status_def response_json_def)

lemma raise_status_statusText:
  "json_body r = Inr d \<Longrightarrow> error_message d = Inr m \<Longrightarrow> \<not> truthy m \<Longrightarrow>
   raise_status r = Error (statusText r)"
  by (simp add: raise_status_def response_json_def)

lemma raise_status_null:
  "json_body r = Inr JNull \<Longrightarrow> raise_status r = NullishRead (Some JNull) ''error''"
  by (simp add: raise_status_def response_json_def error_message_def)

lemma error_message_non_null:
  "d \<noteq> JNull \<Longrightarrow>
   error_message d = Inr (case property d ''error'' of None \<Rightarrow> None | Some e \<Rightarrow> property e ''message'')"
proof (cases "property d ''error''")
  case None
  assume "d \<noteq> JNull"
  with None show ?thesis by (simp add: error_message_def get_non_null)
next
  case (Some e)
  assume d: "d \<noteq> JNull"
  show ?thesis
  proof (cases "e = JNull")
    case True
    with Some d show ?thesis by (simp add: error_message_def get_non_null)
  next
    case False
    with Some d show ?thesis by (simp add: error_message_def get_non_null)
  qed
qed

text \<open>
  C8, amended. The claim has the status text used whenever \<^verbatim>\<open>error.message\<close> cannot be
  read. When the transport answers with a status that is not a success, the state becomes
  failed, and the message is: the body's \<^verbatim>\<open>error.message\<close>, converted to a string, when
  the body decodes and that field is truthy; the response's status text when the body
  decodes to a value other than null and the field is absent or falsy (the empty string
  too); the message of the decoding error when the body does not decode.
\<close>

theorem non_success_status:
  assumes "validation st = None"
    and "send (build_request P (apiKey st) (companyName st) (companyUrl st)) = Resolved r"
    and "\<not> ok r"
  shows "result (fst (handleSearch P send st)) = None
     \<and> error (fst (handleSearch P send st)) \<noteq> None
     \<and> \<not> loading (fst (handleSearch P send st))
     \<and> (\<forall>d e m s. json_body r = Inr d \<and> property d ''error'' = Some e
            \<and> property e ''message'' = Some m \<and> truthy (Some m) \<and> toString m = Inr s \<longrightarrow>
           error (fst (handleSearch P send st)) = Some s)
     \<and> (\<forall>d. json_body r = Inr d \<and> d \<noteq> JNull
            \<and> \<not> truthy (case property d ''error'' of None \<Rightarrow> None
                          | Some e \<Rightarrow> property e ''message'') \<longrightarrow>
           error (fst (handleSearch P send st)) = Some (statusText r))
     \<and> (\<forall>m. json_body r = Inl m \<longrightarrow> error (fst (handleSearch P send st)) = Some m)"
proof -
  have final: "fst (handleSearch P send st)
      = (in_flight st)\<lparr>error := Some (message P (raise_status r)), loading := False\<rparr>"
    using assms by (simp add: handleSearch_valid try_block_not_ok settle_Inl)
  have "result (fst (handleSearch P send st)) = None"
    by (simp add: final in_flight_def)
  moreover have "\<not> loading (fst (handleSearch P send st))"
    by (simp add: final)
  moreover have "error (fst (handleSearch P send st)) \<noteq> None"
    by (simp add: final)
  moreover have "error (fst (handleSearch P send st)) = Some s"
    if b: "json_body r = Inr d" and e: "property d ''error'' = Some e"
      and m: "property e ''message'' = Some m" and t: "truthy (Some m)"
      and s: "toString m = Inr s" for d e m s
  proof -
    from e have "d \<noteq> JNull" by auto
    then have em: "error_message d = Inr (Some m)"
      by (simp add: error_message_non_null e m)
    have ts: "ToString (Some m) = Inr s" using s by simp
    have "raise_status r = Error s"
      by (rule raise_status_field [OF b em t ts])
    then show ?thesis by (simp add: final)
  qed
  moreover have "error (fst (handleSearch P send st)) = Some (statusText r)"
    if b: "json_body r = Inr d" and d: "d \<noteq> JNull"
      and f: "\<not> truthy (case property d ''error'' of None \<Rightarrow> None
                          | Some e \<Rightarrow> property e ''message'')" for d
  proof -
    have "raise_status r = Error (statusText r)"
      using b error_message_non_null [OF d] f by (rule raise_status_statusText)
    then show ?thesis by (simp add: final)
  qed
  moreover have "error (fst (handleSearch P send st)) = Some m" if "json_body r = Inl m" for m
    using that by (simp add: final raise_status_undecodable)
  ultimately show ?thesis by blast
qed

text \<open>
  Status 401 with the body \<^verbatim>\<open>{ "error": { "message": "bad key" } }\<close>, with an empty
  message, and a body that is not JSON.
\<close>

theorem non_success_status_witness:
  "error (fst (handleSearch sample_platform
        (answering False ''Unauthorized''
           (Inr (JObj [(''error'', JObj [(''message'', JStr ''bad key'')])])))
        (sample_state ''sk-1'' ''Tesla'' []))) = Some ''bad key''
   \<and> error (fst (handleSearch sample_platform
        (answering False ''Unauthorized'' (Inr (JObj [(''error'', JObj [(''message'', JStr [])])])))
        (sample_state ''sk-1'' ''Tesla'' []))) = Some ''Unauthorized''
   \<and> error (fst (handleSearch sample_platform
        (answering False ''Bad Gateway'' (Inl ''Unexpected end of JSON input''))
        (sample_state ''sk-1'' ''Tesla'' []))) = Some ''Unexpected end of JSON input''"
proof -
  let ?st = "sample_state ''sk-1'' ''Tesla'' []"
  have v: "validation ?st = None"
    by (simp add: validation_def sample_state_def)
  have a: "error (fst (handleSearch sample_platform
        (answering False ''Unauthorized''
           (Inr (JObj [(''error'', JObj [(''message'', JStr ''bad key'')])]))) ?st)) = Some ''bad key''"
    using non_success_status [OF v, of "answering False ''Unauthorized''
           (Inr (JObj [(''error'', JObj [(''message'', JStr ''bad key'')])]))" sample_platform
           "\<lparr>ok = False, statusText = ''Unauthorized'',
             json_body = Inr (JObj [(''error'', JObj [(''message'', JStr ''bad key'')])])\<rparr>"]
    by (simp add: answering_def)
  have b: "error (fst (handleSearch sample_platform
        (answering False ''Unauthorized'' (Inr (JObj [(''error'', JObj [(''message'', JStr [])])]))) ?st))
        = Some ''Unauthorized''"
    using non_success_status [OF v, of "answering False ''Unauthorized''
           (Inr (JObj [(''error'', JObj [(''message'', JStr [])])]))" sample_platform
           "\<lparr>ok = False, statusText = ''Unauthorized'',
             json_body = Inr (JObj [(''error'', JObj [(''message'', JStr [])])])\<rparr>"]
    by (simp add: answering_def)
  have c: "error (fst (handleSearch sample_platform
        (answering False ''Bad Gateway'' (Inl ''Unexpected end of JSON input'')) ?st))
        = Some ''Unexpected end of JSON input''"
    using non_success_status [OF v, of "answering False ''Bad Gateway''
           (Inl ''Unexpected end of JSON input'')" sample_platform
           "\<lparr>ok = False, statusText = ''Bad Gateway'',
             json_body = Inl ''Unexpected end of JSON input''\<rparr>"]
    by (simp add: answering_def)
  from a b c show ?thesis by blast
qed

text \<open>
  The body \<^verbatim>\<open>null\<close> decodes, but the read of \<^verbatim>\<open>error\<close> raises: the message stored is the
  engine's and not the status text. A message object with an own \<^verbatim>\<open>toString\<close> makes the
  constructor of the error raise.
\<close>

theorem null_body_message:
  "error (fst (handleSearch sample_platform (answering False ''Unauthorized'' (Inr JNull))
        (sample_state ''sk-1'' ''Tesla'' [])))
     = Some (''Cannot read properties of null (reading '' @ [CHR 0x27] @ ''error'' @ [CHR 0x27] @ '')'')
   \<and> error (fst (handleSearch sample_platform (answering False ''Unauthorized'' (Inr JNull))
        (sample_state ''sk-1'' ''Tesla'' []))) \<noteq> Some ''Unauthorized''
   \<and> error (fst (handleSearch sample_platform
        (answering False ''Unauthorized''
           (Inr (JObj [(''error'', JObj [(''message'', JObj [(''toString'', JNum ''1'')])])])))
        (sample_state ''sk-1'' ''Tesla'' [])))
     = Some ''Cannot convert object to primitive value''"
  by (simp add: handleSearch_def validation_def sample_state_def Let_def answering_def
      try_block_def raise_status_def response_json_def error_message_def settle_def
      sample_platform_def)

end
